theory Spec2Isabelle
  imports Complex_Main "HOL-Library.Word" "HOL-Library.Sublist"
begin

text \<open>
  A model of \<open>src/flash-source-buffer.js\<close>: the class \<open>FlashSourceBuffer\<close>, which
  takes bytes from a caller, sends them to a transmuxer worker, queues the base64 chunks
  the worker sends back and feeds them to a SWF one at a time. Every method is a function
  from the state before to an outcome and the state after. A name of the source that ends
  in an underscore ends in a prime here (\<open>buffer_\<close> is \<open>buffer'\<close>).
\<close>

section \<open>JavaScript values used by flash-source-buffer.js\<close>

text \<open>
  A JavaScript number is modelled as \<open>NaN\<close>, one of the two infinities, or a finite
  value. Finite values are real numbers, with one zero. The operations \<open>js_add\<close>,
  \<open>js_mul\<close>, \<open>js_div\<close> follow the IEEE rules for \<open>NaN\<close> and the infinities and
  give the exact result on finite values; \<open>binary64\<close> below is the rounding of an exact
  result to the nearest double, which \<open>toDecimalPlaces\<close> applies after each of its
  operations.
\<close>

datatype jsnum = NaN | NegInf | Fin real | PosInf

text \<open>A value of any type, for the two places where the source asks
  \<open>typeof v === 'number'\<close>: a number is a \<open>JNum\<close>.\<close>

datatype jsval = JUndefined | JNull | JBool bool | JNum jsnum | JStr string | JObject

text \<open>The global \<open>isNaN\<close> on a number, and the truthiness of a number in a condition.\<close>

fun isNaN :: "jsnum \<Rightarrow> bool" where
  "isNaN NaN = True"
| "isNaN _ = False"

fun truthy :: "jsnum \<Rightarrow> bool" where
  "truthy NaN = False"
| "truthy (Fin x) = (x \<noteq> 0)"
| "truthy _ = True"

fun js_neg :: "jsnum \<Rightarrow> jsnum" where
  "js_neg NaN = NaN"
| "js_neg NegInf = PosInf"
| "js_neg PosInf = NegInf"
| "js_neg (Fin x) = Fin (- x)"

fun js_add :: "jsnum \<Rightarrow> jsnum \<Rightarrow> jsnum" where
  "js_add NaN _ = NaN"
| "js_add _ NaN = NaN"
| "js_add PosInf NegInf = NaN"
| "js_add NegInf PosInf = NaN"
| "js_add PosInf _ = PosInf"
| "js_add _ PosInf = PosInf"
| "js_add NegInf _ = NegInf"
| "js_add _ NegInf = NegInf"
| "js_add (Fin x) (Fin y) = Fin (x + y)"

definition js_sub :: "jsnum \<Rightarrow> jsnum \<Rightarrow> jsnum" where
  "js_sub a b = js_add a (js_neg b)"

text \<open>The sign of an infinite product or quotient; a zero factor against an infinity is \<open>NaN\<close>.\<close>

definition signed_inf :: "bool \<Rightarrow> jsnum" where
  "signed_inf positive = (if positive then PosInf else NegInf)"

fun js_mul :: "jsnum \<Rightarrow> jsnum \<Rightarrow> jsnum" where
  "js_mul NaN _ = NaN"
| "js_mul _ NaN = NaN"
| "js_mul (Fin x) (Fin y) = Fin (x * y)"
| "js_mul (Fin x) PosInf = (if x = 0 then NaN else signed_inf (0 < x))"
| "js_mul (Fin x) NegInf = (if x = 0 then NaN else signed_inf (x < 0))"
| "js_mul PosInf (Fin y) = (if y = 0 then NaN else signed_inf (0 < y))"
| "js_mul NegInf (Fin y) = (if y = 0 then NaN else signed_inf (y < 0))"
| "js_mul PosInf PosInf = PosInf"
| "js_mul NegInf NegInf = PosInf"
| "js_mul PosInf NegInf = NegInf"
| "js_mul NegInf PosInf = NegInf"

fun js_div :: "jsnum \<Rightarrow> jsnum \<Rightarrow> jsnum" where
  "js_div NaN _ = NaN"
| "js_div _ NaN = NaN"
| "js_div (Fin x) (Fin y) =
     (if y = 0 then (if x = 0 then NaN else signed_inf (0 < x)) else Fin (x / y))"
| "js_div (Fin x) _ = Fin 0"
| "js_div PosInf (Fin y) = signed_inf (0 \<le> y)"
| "js_div NegInf (Fin y) = signed_inf (y < 0)"
| "js_div _ _ = NaN"

text \<open>\<open>a >= b\<close> and \<open>a < b\<close> on numbers: false as soon as one side is \<open>NaN\<close>.\<close>

fun js_ge :: "jsnum \<Rightarrow> jsnum \<Rightarrow> bool" where
  "js_ge NaN _ = False"
| "js_ge _ NaN = False"
| "js_ge PosInf _ = True"
| "js_ge _ NegInf = True"
| "js_ge (Fin x) (Fin y) = (y \<le> x)"
| "js_ge _ _ = False"

fun js_lt :: "jsnum \<Rightarrow> jsnum \<Rightarrow> bool" where
  "js_lt NaN _ = False"
| "js_lt _ NaN = False"
| "js_lt a b = (\<not> js_ge a b)"

text \<open>\<open>Math.max(a, b)\<close>, \<open>Math.round(a)\<close> (ties go up) and \<open>Math.pow(10, p)\<close>.\<close>

fun Math_max :: "jsnum \<Rightarrow> jsnum \<Rightarrow> jsnum" where
  "Math_max NaN _ = NaN"
| "Math_max _ NaN = NaN"
| "Math_max a b = (if js_ge a b then a else b)"

fun Math_round :: "jsnum \<Rightarrow> jsnum" where
  "Math_round (Fin x) = Fin (of_int \<lfloor>x + 1 / 2\<rfloor>)"
| "Math_round a = a"

fun Math_pow10 :: "jsnum \<Rightarrow> jsnum" where
  "Math_pow10 NaN = NaN"
| "Math_pow10 PosInf = PosInf"
| "Math_pow10 NegInf = Fin 0"
| "Math_pow10 (Fin p) = Fin (10 powr p)"

subsection \<open>Rounding to binary64\<close>

text \<open>
  The doubles around \<open>x\<close> are the multiples of \<open>ulp x\<close>: 52 binary places below the
  leading bit of \<open>x\<close>, and never finer than \<open>2 ^ -1074\<close>, the spacing of the
  subnormal numbers. \<open>binary64 x\<close> is the multiple nearest to \<open>x\<close>, the even one of
  two that are equally near, and an infinity when that multiple is \<open>2 ^ 1024\<close> or more
  in size. \<open>fl\<close> rounds the finite result of an operation.
\<close>

definition roundHalfEven :: "real \<Rightarrow> int" where
  "roundHalfEven m =
     (let f = \<lfloor>m\<rfloor>; d = m - of_int f
      in if d < 1 / 2 then f else if 1 / 2 < d then f + 1 else if even f then f else f + 1)"

definition ulp :: "real \<Rightarrow> real" where
  "ulp x = 2 powr (of_int (max \<lfloor>log 2 \<bar>x\<bar>\<rfloor> (- 1022)) - 52)"

definition binary64 :: "real \<Rightarrow> jsnum" where
  "binary64 x =
     (if x = 0 then Fin 0
      else (let y = of_int (roundHalfEven (x / ulp x)) * ulp x
            in if 2 ^ 1024 \<le> \<bar>y\<bar> then signed_inf (0 < x) else Fin y))"

fun fl :: "jsnum \<Rightarrow> jsnum" where
  "fl (Fin x) = binary64 x"
| "fl a = a"

section \<open>The source buffer and its surroundings\<close>

text \<open>
  What a call can throw: the two errors of the source (\<open>InvalidStateError\<close> of
  \<open>appendBuffer\<close>, the \<open>TypeError\<close> of a property read on a missing object) and
  the string the global callbacks throw to hand their payload to the SWF.
\<close>

type_synonym chunk = string

datatype thrown = InvalidStateError | TypeError | Payload chunk

datatype 'a outcome = Returned 'a | Threw thrown

text \<open>The typed array given to \<open>appendBuffer\<close>.\<close>

record uint8array =
  buffer :: "8 word list"
  byteOffset :: nat
  byteLength :: nat

text \<open>Messages posted to the transmuxer worker.\<close>

datatype message =
    Init
  | Push "8 word list" nat nat
  | Flush
  | Reset
  | ConvertTagsToData jsnum

text \<open>
  Everything the buffer does to the outside, in program order: events it triggers on
  itself and on the tech, messages to the worker, calls into the SWF, timers it sets,
  and writes to the parent media source. The last entry is the other direction: a string
  the SWF has caught from a global callback it invoked.
\<close>

datatype effect =
    Trigger string
  | TechTrigger string
  | PostMessage message
  | Vjs_appendChunkReady string
  | Vjs_abort
  | Vjs_discontinuity
  | ScheduleTick
  | SetReadyState string
  | SwfReceived chunk

text \<open>
  The tech, the SWF object and the media source, as far as the buffer reads them.
  \<open>tech.seeking()\<close> and \<open>tech.currentTime()\<close> are the two fields of the tech.
  Of the SWF object the source tests only whether it has \<open>vjs_getProperty\<close>; the
  other methods it calls without a test, and they are there whenever the object is.
  \<open>vjs_buffered\<close> is what \<open>vjs_getProperty('buffered')\<close> returns: a list of
  \<open>[start, end]\<close> pairs, or nothing.
\<close>

record tech =
  seeking :: bool
  currentTime :: jsnum

record swf =
  has_vjs_getProperty :: bool
  vjs_buffered :: "(jsnum \<times> jsnum) list option"

record mediaSource =
  readyState :: string
  swfObj :: "swf option"
  tech' :: tech

text \<open>A text track is its list of cues; a cue is kept as its start and end time.\<close>

type_synonym cue = "jsnum \<times> jsnum"

type_synonym track = "cue list"

record segment =
  seg_basePts :: jsnum
  seg_length :: jsnum
  seg_captions :: "cue list"
  seg_metadata :: "cue list"

text \<open>
  The three text-track helpers are imported from files of the repository that are not
  part of the source given here (\<open>remove-cues-from-track\<close>,
  \<open>create-text-tracks-if-necessary\<close>, \<open>add-text-track-data\<close>). They are taken as
  parameters: each reads and writes the buffer's two text tracks,
  \<open>(metadataTrack_, inbandTextTrack_)\<close>, and nothing else of the buffer.
\<close>

type_synonym tracks = "track option \<times> track option"

record helpers =
  removeCuesFromTrack :: "jsnum \<Rightarrow> jsnum \<Rightarrow> track option \<Rightarrow> track option"
  createTextTracksIfNecessary :: "segment \<Rightarrow> tracks \<Rightarrow> tracks"
  addTextTrackData :: "jsnum \<Rightarrow> cue list \<Rightarrow> cue list \<Rightarrow> tracks \<Rightarrow> tracks"

text \<open>
  The fields of a \<open>FlashSourceBuffer\<close>, then what lives outside the object: the two
  global callbacks on \<open>window\<close> (each holds the string it will throw), the pending
  \<open>setTimeout\<close> calls of \<open>scheduleTick\<close>, the one-shot \<open>updateend\<close> listener
  of the constructor, the callbacks the SWF has been asked to invoke, and the log of
  effects.
\<close>

record FlashSourceBuffer =
  chunkSize' :: nat
  buffer' :: "chunk list"
  bufferSize' :: nat
  basePtsOffset' :: jsnum
  mediaSource' :: "mediaSource option"
  updating :: bool
  timestampOffset' :: jsnum
  metadataTrack' :: "track option"
  inbandTextTrack' :: "track option"
  encodedHeaderSuperSecret :: "chunk option"
  throwDataSuperSecret :: "chunk option"
  timers :: nat
  loadedmetadata_listener :: bool
  swfRequests :: "string list"
  effects :: "effect list"

definition emit :: "effect \<Rightarrow> FlashSourceBuffer \<Rightarrow> FlashSourceBuffer" where
  "emit e s = s\<lparr>effects := effects s @ [e]\<rparr>"

text \<open>Statements in sequence: a throw skips the rest.\<close>

definition andThen ::
  "unit outcome \<times> FlashSourceBuffer \<Rightarrow> (FlashSourceBuffer \<Rightarrow> 'a outcome \<times> FlashSourceBuffer)
   \<Rightarrow> 'a outcome \<times> FlashSourceBuffer" where
  "andThen r f = (case r of (Threw e, s) \<Rightarrow> (Threw e, s) | (Returned _, s) \<Rightarrow> f s)"

text \<open>\<open>this.mediaSource_.swfObj\<close>: nothing when the media source or its SWF is missing.\<close>

definition the_swf :: "FlashSourceBuffer \<Rightarrow> swf option" where
  "the_swf s = (case mediaSource' s of None \<Rightarrow> None | Some m \<Rightarrow> swfObj m)"

text \<open>
  \<open>scheduleTick(this.processBuffer_.bind(this))\<close>: one more pending timer.
\<close>

definition scheduleTick :: "FlashSourceBuffer \<Rightarrow> FlashSourceBuffer" where
  "scheduleTick s = emit ScheduleTick (s\<lparr>timers := timers s + 1\<rparr>)"

text \<open>
  \<open>this.trigger({type: ty})\<close>. Listeners of callers are outside the model. The one
  listener of the file is the one-shot \<open>updateend\<close> listener of the constructor, which
  triggers \<open>loadedmetadata\<close> on the tech; \<open>one\<close> removes it before it runs, and its
  read of \<open>this.mediaSource_.tech_\<close> throws when the media source is missing.
\<close>

definition trigger :: "string \<Rightarrow> FlashSourceBuffer \<Rightarrow> unit outcome \<times> FlashSourceBuffer" where
  "trigger ty s =
     (let s1 = emit (Trigger ty) s in
      if ty = ''updateend'' \<and> loadedmetadata_listener s1 then
        (let s2 = s1\<lparr>loadedmetadata_listener := False\<rparr> in
         case mediaSource' s2 of
           None \<Rightarrow> (Threw TypeError, s2)
         | Some m \<Rightarrow> (Returned (), emit (TechTrigger ''loadedmetadata'') s2))
      else (Returned (), s1))"

text \<open>The calls into the SWF: each throws when there is no SWF object to call.\<close>

definition vjs_appendChunkReady :: "string \<Rightarrow> FlashSourceBuffer \<Rightarrow> unit outcome \<times> FlashSourceBuffer" where
  "vjs_appendChunkReady name s =
     (case the_swf s of
        None \<Rightarrow> (Threw TypeError, s)
      | Some _ \<Rightarrow>
          (Returned (), emit (Vjs_appendChunkReady name) (s\<lparr>swfRequests := swfRequests s @ [name]\<rparr>)))"

definition vjs_abort :: "FlashSourceBuffer \<Rightarrow> unit outcome \<times> FlashSourceBuffer" where
  "vjs_abort s =
     (case the_swf s of
        None \<Rightarrow> (Threw TypeError, s)
      | Some _ \<Rightarrow> (Returned (), emit Vjs_abort s))"

definition vjs_discontinuity :: "FlashSourceBuffer \<Rightarrow> unit outcome \<times> FlashSourceBuffer" where
  "vjs_discontinuity s =
     (case the_swf s of
        None \<Rightarrow> (Threw TypeError, s)
      | Some _ \<Rightarrow> (Returned (), emit Vjs_discontinuity s))"

definition postMessage :: "message \<Rightarrow> FlashSourceBuffer \<Rightarrow> FlashSourceBuffer" where
  "postMessage m s = emit (PostMessage m) s"

subsection \<open>toDecimalPlaces\<close>

text \<open>
  \<open>Math.round(num * scale) / scale\<close> with \<open>scale = Math.pow(10, places)\<close>: the
  power, the product and the quotient are each rounded to a double; \<open>Math.round\<close> of a
  double is exact.
\<close>

definition toDecimalPlaces :: "jsnum \<Rightarrow> jsval \<Rightarrow> jsnum" where
  "toDecimalPlaces num places =
     (let places1 = (case places of
                       JNum p \<Rightarrow> if js_lt p (Fin 0) then Fin 0 else p
                     | _ \<Rightarrow> Fin 0);
          scale = fl (Math_pow10 places1)
      in fl (js_div (Math_round (fl (js_mul num scale))) scale))"

subsection \<open>The constructor\<close>

text \<open>
  \<open>BYTES_PER_CHUNK\<close> is a constant of \<open>flash-constants\<close> and \<open>encodedHeader\<close> is the
  base64 text of the FLV header of mux.js; both are parameters. The constructor throws
  when the media source has no SWF object to call.
\<close>

definition new_FlashSourceBuffer :: "nat \<Rightarrow> chunk \<Rightarrow> mediaSource option \<Rightarrow> FlashSourceBuffer outcome" where
  "new_FlashSourceBuffer BYTES_PER_CHUNK encodedHeader mediaSource =
     (let s0 = \<lparr>chunkSize' = BYTES_PER_CHUNK, buffer' = [], bufferSize' = 0,
                basePtsOffset' = NaN, mediaSource' = mediaSource, updating = False,
                timestampOffset' = Fin 0, metadataTrack' = None, inbandTextTrack' = None,
                encodedHeaderSuperSecret = Some encodedHeader, throwDataSuperSecret = None,
                timers = 0, loadedmetadata_listener = False, swfRequests = [], effects = []\<rparr>
      in case vjs_appendChunkReady ''encodedHeaderSuperSecret'' s0 of
           (Threw e, _) \<Rightarrow> Threw e
         | (Returned _, s1) \<Rightarrow> Returned ((postMessage Init s1)\<lparr>loadedmetadata_listener := True\<rparr>))"

text \<open>\<open>window.encodedHeaderSuperSecret\<close>: deletes itself and throws the header.\<close>

definition encodedHeaderSuperSecret_call ::
  "chunk \<Rightarrow> FlashSourceBuffer \<Rightarrow> unit outcome \<times> FlashSourceBuffer" where
  "encodedHeaderSuperSecret_call encodedHeader s =
     (Threw (Payload encodedHeader), s\<lparr>encodedHeaderSuperSecret := None\<rparr>)"

subsection \<open>timestampOffset and buffered\<close>

definition timestampOffset :: "FlashSourceBuffer \<Rightarrow> jsnum" where
  "timestampOffset s = timestampOffset' s"

definition set_timestampOffset :: "jsval \<Rightarrow> FlashSourceBuffer \<Rightarrow> unit outcome \<times> FlashSourceBuffer" where
  "set_timestampOffset val s =
     (case val of
        JNum v \<Rightarrow>
          if js_ge v (Fin 0) then
            andThen (vjs_discontinuity (s\<lparr>timestampOffset' := v\<rparr>))
              (\<lambda>s1. (Returned (), postMessage Reset (s1\<lparr>basePtsOffset' := NaN\<rparr>)))
          else (Returned (), s)
      | _ \<Rightarrow> (Returned (), s))"

text \<open>
  \<open>videojs.createTimeRange()\<close> and \<open>videojs.createTimeRanges(buffered)\<close> of video.js:
  the empty range set, and the range set of a list of pairs (empty for a missing list).
\<close>

datatype timeRanges = TimeRanges "(jsnum \<times> jsnum) list"

definition createTimeRange :: timeRanges where
  "createTimeRange = TimeRanges []"

definition createTimeRanges :: "(jsnum \<times> jsnum) list option \<Rightarrow> timeRanges" where
  "createTimeRanges ranges = (case ranges of None \<Rightarrow> TimeRanges [] | Some rs \<Rightarrow> TimeRanges rs)"

definition buffered :: "FlashSourceBuffer \<Rightarrow> timeRanges" where
  "buffered s =
     (case mediaSource' s of
        None \<Rightarrow> createTimeRange
      | Some m \<Rightarrow>
          (case swfObj m of
             None \<Rightarrow> createTimeRange
           | Some sw \<Rightarrow>
               if \<not> has_vjs_getProperty sw then createTimeRange
               else
                 (case vjs_buffered sw of
                    Some ((b0, b1) # rest) \<Rightarrow>
                      createTimeRanges
                        (Some ((toDecimalPlaces b0 (JNum (Fin 3)), toDecimalPlaces b1 (JNum (Fin 3))) # rest))
                  | other \<Rightarrow> createTimeRanges other)))"

subsection \<open>appendBuffer, abort, remove\<close>

definition appendBuffer :: "uint8array \<Rightarrow> FlashSourceBuffer \<Rightarrow> unit outcome \<times> FlashSourceBuffer" where
  "appendBuffer bytes s =
     (if updating s then (Threw InvalidStateError, s)
      else
        (let s1 = s\<lparr>updating := True\<rparr> in
         case mediaSource' s1 of
           None \<Rightarrow> (Threw TypeError, s1)
         | Some m \<Rightarrow>
             (let s2 = emit (SetReadyState ''open'')
                         (s1\<lparr>mediaSource' := Some (m\<lparr>readyState := ''open''\<rparr>)\<rparr>) in
              andThen (trigger ''update'' s2)
                (\<lambda>s3. (Returned (),
                        postMessage Flush
                          (postMessage (Push (buffer bytes) (byteOffset bytes) (byteLength bytes)) s3))))))"

definition abort :: "FlashSourceBuffer \<Rightarrow> unit outcome \<times> FlashSourceBuffer" where
  "abort s =
     andThen (vjs_abort (s\<lparr>buffer' := [], bufferSize' := 0\<rparr>))
       (\<lambda>s1. if updating s1 then trigger ''updateend'' (s1\<lparr>updating := False\<rparr>)
              else (Returned (), s1))"

definition remove ::
  "helpers \<Rightarrow> jsnum \<Rightarrow> jsnum \<Rightarrow> FlashSourceBuffer \<Rightarrow> unit outcome \<times> FlashSourceBuffer" where
  "remove h start end' s =
     (let s1 = s\<lparr>metadataTrack' := removeCuesFromTrack h start end' (metadataTrack' s)\<rparr>;
          s2 = s1\<lparr>inbandTextTrack' := removeCuesFromTrack h start end' (inbandTextTrack' s1)\<rparr>
      in andThen (trigger ''update'' s2) (\<lambda>s3. trigger ''updateend'' s3))"

text \<open>The \<open>seeked\<close> listener the constructor puts on the player.\<close>

definition seeked :: "helpers \<Rightarrow> FlashSourceBuffer \<Rightarrow> FlashSourceBuffer" where
  "seeked h s =
     (let s1 = s\<lparr>metadataTrack' := removeCuesFromTrack h (Fin 0) PosInf (metadataTrack' s)\<rparr>
      in s1\<lparr>inbandTextTrack' := removeCuesFromTrack h (Fin 0) PosInf (inbandTextTrack' s1)\<rparr>)"

subsection \<open>calculateTargetPts_ and receiveBuffer_\<close>

definition calculateTargetPts' ::
  "jsnum \<Rightarrow> jsnum \<Rightarrow> FlashSourceBuffer \<Rightarrow> jsnum outcome \<times> FlashSourceBuffer" where
  "calculateTargetPts' basePts len s =
     (let s1 = (if isNaN (basePtsOffset' s) \<and> truthy len then s\<lparr>basePtsOffset' := basePts\<rparr> else s)
      in case mediaSource' s1 of
           None \<Rightarrow> (Threw TypeError, s1)
         | Some m \<Rightarrow>
             (let tech = tech' m;
                  targetPts0 = Fin 0;
                  targetPts1 = (if seeking tech
                                then Math_max targetPts0 (js_sub (currentTime tech) (timestampOffset s1))
                                else targetPts0);
                  targetPts2 = js_mul targetPts1 (Fin 1000);
                  targetPts3 = js_add targetPts2 (basePtsOffset' s1)
              in (Returned targetPts3, s1)))"

definition receiveBuffer' ::
  "helpers \<Rightarrow> segment \<Rightarrow> FlashSourceBuffer \<Rightarrow> unit outcome \<times> FlashSourceBuffer" where
  "receiveBuffer' h sg s =
     (let (m1, i1) = createTextTracksIfNecessary h sg (metadataTrack' s, inbandTextTrack' s);
          (m2, i2) = addTextTrackData h (timestampOffset s) (seg_captions sg) (seg_metadata sg) (m1, i1);
          s1 = s\<lparr>metadataTrack' := m2, inbandTextTrack' := i2\<rparr>
      in case calculateTargetPts' (seg_basePts sg) (seg_length sg) s1 of
           (Threw e, s2) \<Rightarrow> (Threw e, s2)
         | (Returned targetPts, s2) \<Rightarrow> (Returned (), postMessage (ConvertTagsToData targetPts) s2))"

subsection \<open>processBuffer_ and the callback it hands to the SWF\<close>

definition processBuffer' :: "FlashSourceBuffer \<Rightarrow> unit outcome \<times> FlashSourceBuffer" where
  "processBuffer' s =
     (case buffer' s of
        [] \<Rightarrow>
          if updating s \<noteq> False then trigger ''updateend'' (s\<lparr>updating := False\<rparr>)
          else (Returned (), s)
      | b64str # rest \<Rightarrow>
          vjs_appendChunkReady ''throwDataSuperSecret''
            (s\<lparr>buffer' := rest, throwDataSuperSecret := Some b64str\<rparr>))"

text \<open>
  \<open>window.throwDataSuperSecret\<close>, the closure over \<open>b64str\<close>: it re-arms the timer
  or ends the update, then throws the chunk.
\<close>

definition throwDataSuperSecret_call ::
  "chunk \<Rightarrow> FlashSourceBuffer \<Rightarrow> unit outcome \<times> FlashSourceBuffer" where
  "throwDataSuperSecret_call b64str s =
     andThen
       (if length (buffer' s) \<noteq> 0 then (Returned (), scheduleTick s)
        else trigger ''updateend'' (s\<lparr>throwDataSuperSecret := None, updating := False\<rparr>))
       (\<lambda>s1. (Threw (Payload b64str), s1))"

subsection \<open>Messages of the transmuxer worker\<close>

datatype workerEvent = Metadata segment | Data "chunk list" | OtherAction

definition onmessage ::
  "helpers \<Rightarrow> workerEvent \<Rightarrow> FlashSourceBuffer \<Rightarrow> unit outcome \<times> FlashSourceBuffer" where
  "onmessage h ev s =
     (case ev of
        Metadata sg \<Rightarrow> receiveBuffer' h sg s
      | Data b64 \<Rightarrow> (Returned (), scheduleTick (s\<lparr>buffer' := buffer' s @ b64\<rparr>))
      | OtherAction \<Rightarrow> (Returned (), s))"

section \<open>The timer and the SWF\<close>

text \<open>
  Two things happen to the buffer from outside its own calls: a timer of
  \<open>scheduleTick\<close> fires and runs \<open>processBuffer_\<close>, and the SWF invokes the global
  function it was given by name and keeps the string the function throws. The SWF is
  outside the source: it is taken to serve each \<open>vjs_appendChunkReady\<close> once, in the
  order of the calls, at a time of its own choosing (at once, inside the call, is one such
  time); a name whose global function has been deleted gives it nothing. A step that
  cannot happen (no timer pending, no request to the SWF) is \<open>None\<close>.
\<close>

datatype step = Tick | SinkReady

definition swf_invoke :: "string \<Rightarrow> FlashSourceBuffer \<Rightarrow> FlashSourceBuffer" where
  "swf_invoke name s =
     (let result =
        (if name = ''throwDataSuperSecret'' then
           (case throwDataSuperSecret s of
              None \<Rightarrow> (Returned (), s)
            | Some b64str \<Rightarrow> throwDataSuperSecret_call b64str s)
         else if name = ''encodedHeaderSuperSecret'' then
           (case encodedHeaderSuperSecret s of
              None \<Rightarrow> (Returned (), s)
            | Some encodedHeader \<Rightarrow> encodedHeaderSuperSecret_call encodedHeader s)
         else (Returned (), s))
      in case result of
           (Threw (Payload c), s1) \<Rightarrow> emit (SwfReceived c) s1
         | (_, s1) \<Rightarrow> s1)"

definition fire :: "step \<Rightarrow> FlashSourceBuffer \<Rightarrow> FlashSourceBuffer option" where
  "fire st s =
     (case st of
        Tick \<Rightarrow>
          if timers s = 0 then None
          else Some (snd (processBuffer' (s\<lparr>timers := timers s - 1\<rparr>)))
      | SinkReady \<Rightarrow>
          (case swfRequests s of
             [] \<Rightarrow> None
           | name # rest \<Rightarrow> Some (swf_invoke name (s\<lparr>swfRequests := rest\<rparr>))))"




text \<open>Every entry point of the buffer, for statements about arbitrary histories.\<close>

datatype call =
    AppendBuffer uint8array
  | Abort
  | Remove jsnum jsnum
  | SetTimestampOffset jsval
  | OnMessage workerEvent
  | Seeked
  | CalculateTargetPts jsnum jsnum
  | ProcessBuffer
  | Env step

definition perform :: "helpers \<Rightarrow> call \<Rightarrow> FlashSourceBuffer \<Rightarrow> FlashSourceBuffer" where
  "perform h c s =
     (case c of
        AppendBuffer bytes \<Rightarrow> snd (appendBuffer bytes s)
      | Abort \<Rightarrow> snd (abort s)
      | Remove start end' \<Rightarrow> snd (remove h start end' s)
      | SetTimestampOffset val \<Rightarrow> snd (set_timestampOffset val s)
      | OnMessage ev \<Rightarrow> snd (onmessage h ev s)
      | Seeked \<Rightarrow> seeked h s
      | CalculateTargetPts basePts len \<Rightarrow> snd (calculateTargetPts' basePts len s)
      | ProcessBuffer \<Rightarrow> snd (processBuffer' s)
      | Env st \<Rightarrow> (case fire st s of None \<Rightarrow> s | Some s1 \<Rightarrow> s1))"

fun performAll :: "helpers \<Rightarrow> call list \<Rightarrow> FlashSourceBuffer \<Rightarrow> FlashSourceBuffer" where
  "performAll h [] s = s"
| "performAll h (c # cs) s = performAll h cs (perform h c s)"

section \<open>Observations\<close>


definition fired :: "string \<Rightarrow> FlashSourceBuffer \<Rightarrow> FlashSourceBuffer \<Rightarrow> nat" where
  "fired ty s s' = count_list (drop (length (effects s)) (effects s')) (Trigger ty)"


text \<open>A write to \<open>timestampOffset\<close> that the setter accepts.\<close>

fun accepted_offset_write :: "call \<Rightarrow> bool" where
  "accepted_offset_write (SetTimestampOffset (JNum v)) = js_ge v (Fin 0)"
| "accepted_offset_write _ = False"

subsection \<open>The delivery loop\<close>



text \<open>The queue is empty, no update is in flight and the SWF owes no callback: a timer
  that fires now does nothing.\<close>

definition idle :: "FlashSourceBuffer \<Rightarrow> bool" where
  "idle s = (buffer' s = [] \<and> \<not> updating s \<and> swfRequests s = [])"









section \<open>Example values\<close>

definition ex_tech :: tech where
  "ex_tech = \<lparr>seeking = True, currentTime = Fin 12\<rparr>"

text \<open>The SWF reports the ranges \<open>[1.2345, 10.0005]\<close> and \<open>[20, 30]\<close>; the bounds
  are written as the doubles they are.\<close>

definition ex_swf :: swf where
  "ex_swf = \<lparr>has_vjs_getProperty = True,
             vjs_buffered =
               Some [(Fin (5559693739988877 / 4503599627370496),
                      Fin (5629781009189831 / 562949953421312)),
                     (Fin 20, Fin 30)]\<rparr>"

definition ex_mediaSource :: mediaSource where
  "ex_mediaSource = \<lparr>readyState = ''closed'', swfObj = Some ex_swf, tech' = ex_tech\<rparr>"

text \<open>The same media source with a SWF that reports the one range \<open>[1e306, 1e306]\<close>.\<close>

definition ex_huge :: FlashSourceBuffer where
  "ex_huge =
     \<lparr>chunkSize' = 4096, buffer' = [], bufferSize' = 0, basePtsOffset' = NaN,
      mediaSource' =
        Some \<lparr>readyState = ''open'',
              swfObj = Some \<lparr>has_vjs_getProperty = True,
                              vjs_buffered =
                                Some [(Fin (6413338752028713 * 2 ^ 964),
                                       Fin (6413338752028713 * 2 ^ 964))]\<rparr>,
              tech' = \<lparr>seeking = False, currentTime = Fin 0\<rparr>\<rparr>,
      updating = False, timestampOffset' = Fin 0, metadataTrack' = None,
      inbandTextTrack' = None, encodedHeaderSuperSecret = None, throwDataSuperSecret = None,
      timers = 0, loadedmetadata_listener = False, swfRequests = [], effects = []\<rparr>"

definition ex_helpers :: helpers where
  "ex_helpers =
     \<lparr>removeCuesFromTrack = (\<lambda>start end' tr. tr),
      createTextTracksIfNecessary = (\<lambda>sg ts. ts),
      addTextTrackData = (\<lambda>off caps metas ts. ts)\<rparr>"

definition ex_bytes :: uint8array where
  "ex_bytes = \<lparr>buffer = [71, 64, 17], byteOffset = 0, byteLength = 3\<rparr>"

text \<open>A buffer as the constructor leaves it, and a buffer in the middle of an update
  with the chunks \<open>C1\<close> and \<open>C2\<close> queued and the timer set.\<close>

definition ex_new :: FlashSourceBuffer where
  "ex_new =
     \<lparr>chunkSize' = 4096, buffer' = [], bufferSize' = 0, basePtsOffset' = NaN,
      mediaSource' = Some ex_mediaSource, updating = False, timestampOffset' = Fin 0,
      metadataTrack' = None, inbandTextTrack' = None,
      encodedHeaderSuperSecret = Some ''RkxW'', throwDataSuperSecret = None, timers = 0,
      loadedmetadata_listener = True, swfRequests = [''encodedHeaderSuperSecret''],
      effects = [Vjs_appendChunkReady ''encodedHeaderSuperSecret'', PostMessage Init]\<rparr>"

definition ex_draining :: FlashSourceBuffer where
  "ex_draining =
     \<lparr>chunkSize' = 4096, buffer' = [''C1'', ''C2''], bufferSize' = 0, basePtsOffset' = Fin 1000,
      mediaSource' = Some (ex_mediaSource\<lparr>readyState := ''open''\<rparr>), updating = True,
      timestampOffset' = Fin 2, metadataTrack' = None, inbandTextTrack' = None,
      encodedHeaderSuperSecret = None, throwDataSuperSecret = None, timers = 1,
      loadedmetadata_listener = True, swfRequests = [], effects = []\<rparr>"




definition ex_segment :: segment where
  "ex_segment = \<lparr>seg_basePts = Fin 1000, seg_length = Fin 0, seg_captions = [], seg_metadata = []\<rparr>"

section \<open>Basic facts\<close>

lemmas ex_defs =
  ex_tech_def ex_swf_def ex_mediaSource_def ex_helpers_def ex_bytes_def ex_new_def
  ex_draining_def ex_segment_def

lemma new_FlashSourceBuffer_example:
  "new_FlashSourceBuffer 4096 ''RkxW'' (Some ex_mediaSource) = Returned ex_new"
  by (simp add: new_FlashSourceBuffer_def vjs_appendChunkReady_def the_swf_def postMessage_def
      emit_def ex_defs)

lemma new_FlashSourceBuffer_has_swf:
  "new_FlashSourceBuffer n eh ms = Returned s \<Longrightarrow> the_swf s \<noteq> None \<and> \<not> updating s \<and> buffer' s = []"
  by (cases ms; cases "swfObj (the ms)")
     (auto simp: new_FlashSourceBuffer_def vjs_appendChunkReady_def the_swf_def postMessage_def
        emit_def Let_def)


lemma trigger_update: "trigger ''update'' s = (Returned (), emit (Trigger ''update'') s)"
  by (simp add: trigger_def)

lemma js_add_Fin0: "js_add (Fin 0) b = b"
  by (cases b) auto

lemma js_add_NaN_right: "js_add a NaN = NaN"
  by (cases a) auto


section \<open>appendBuffer\<close>

text \<open>
  Claim C1. \<open>appendBuffer(bytes)\<close> throws \<open>InvalidStateError\<close> exactly when
  \<open>updating\<close> is true at the call, and then leaves the whole state, the chunk queue
  included, as it was. When \<open>updating\<close> is false it sets \<open>updating\<close> to true, and
  (the media source being there, as the constructor requires) triggers \<open>update\<close> and
  posts \<open>push\<close> and then \<open>flush\<close> to the transmuxer, changing nothing else but the
  ready state of the media source.
\<close>

theorem appendBuffer_InvalidStateError:
  "(fst (appendBuffer bytes s) = Threw InvalidStateError \<longleftrightarrow> updating s)
   \<and> (updating s \<longrightarrow> snd (appendBuffer bytes s) = s)
   \<and> (\<not> updating s \<longrightarrow> updating (snd (appendBuffer bytes s)))
   \<and> (\<not> updating s \<longrightarrow> (\<forall>m. mediaSource' s = Some m \<longrightarrow>
         appendBuffer bytes s =
           (Returned (),
            s\<lparr>updating := True,
              mediaSource' := Some (m\<lparr>readyState := ''open''\<rparr>),
              effects := effects s @
                [SetReadyState ''open'', Trigger ''update'',
                 PostMessage (Push (buffer bytes) (byteOffset bytes) (byteLength bytes)),
                 PostMessage Flush]\<rparr>)))"
  by (auto simp: appendBuffer_def trigger_update andThen_def emit_def postMessage_def Let_def
      split: option.splits)

theorem appendBuffer_InvalidStateError_witness:
  "updating ex_draining
   \<and> fst (appendBuffer ex_bytes ex_draining) = Threw InvalidStateError
   \<and> snd (appendBuffer ex_bytes ex_draining) = ex_draining
   \<and> \<not> updating ex_new
   \<and> mediaSource' ex_new = Some ex_mediaSource
   \<and> appendBuffer ex_bytes ex_new =
       (Returned (),
        ex_new\<lparr>updating := True,
          mediaSource' := Some (ex_mediaSource\<lparr>readyState := ''open''\<rparr>),
          effects := [Vjs_appendChunkReady ''encodedHeaderSuperSecret'', PostMessage Init,
                      SetReadyState ''open'', Trigger ''update'',
                      PostMessage (Push [71, 64, 17] 0 3), PostMessage Flush]\<rparr>)"
proof -
  have busy: "updating ex_draining" by (simp add: ex_draining_def)
  have idle: "\<not> updating ex_new" and ms: "mediaSource' ex_new = Some ex_mediaSource"
    by (simp_all add: ex_new_def)
  have fx: "effects ex_new = [Vjs_appendChunkReady ''encodedHeaderSuperSecret'', PostMessage Init]"
    by (simp add: ex_new_def)
  show ?thesis
    using appendBuffer_InvalidStateError[of ex_bytes ex_draining]
      appendBuffer_InvalidStateError[of ex_bytes ex_new] busy idle ms fx
    by (simp add: ex_bytes_def)
qed

text \<open>
  Claim C10. Every accepted \<open>appendBuffer\<close> (one that finds \<open>updating\<close> false) sets
  the \<open>readyState\<close> of the parent media source to \<open>open\<close>, whatever it was, and does
  so before the \<open>update\<close> event and before the bytes are posted to the transmuxer.
\<close>

theorem appendBuffer_opens_mediaSource:
  assumes "\<not> updating s" and "mediaSource' s = Some m"
  shows "fst (appendBuffer bytes s) = Returned ()
         \<and> mediaSource' (snd (appendBuffer bytes s)) = Some (m\<lparr>readyState := ''open''\<rparr>)
         \<and> effects (snd (appendBuffer bytes s)) =
             effects s @ [SetReadyState ''open'', Trigger ''update'',
                          PostMessage (Push (buffer bytes) (byteOffset bytes) (byteLength bytes)),
                          PostMessage Flush]"
  using assms
  by (auto simp: appendBuffer_def trigger_def andThen_def emit_def postMessage_def Let_def)

theorem appendBuffer_opens_mediaSource_witness:
  "\<not> updating ex_new
   \<and> mediaSource' ex_new = Some ex_mediaSource
   \<and> readyState ex_mediaSource = ''closed''
   \<and> fst (appendBuffer ex_bytes ex_new) = Returned ()
   \<and> map_option readyState (mediaSource' (snd (appendBuffer ex_bytes ex_new))) = Some ''open''
   \<and> effects (snd (appendBuffer ex_bytes ex_new)) =
       [Vjs_appendChunkReady ''encodedHeaderSuperSecret'', PostMessage Init,
        SetReadyState ''open'', Trigger ''update'',
        PostMessage (Push [71, 64, 17] 0 3), PostMessage Flush]"
proof -
  have idle: "\<not> updating ex_new" and ms: "mediaSource' ex_new = Some ex_mediaSource"
    by (simp_all add: ex_new_def)
  have fx: "effects ex_new = [Vjs_appendChunkReady ''encodedHeaderSuperSecret'', PostMessage Init]"
    by (simp add: ex_new_def)
  show ?thesis
    using appendBuffer_opens_mediaSource[OF idle ms, of ex_bytes] idle ms fx
    by (simp add: ex_bytes_def ex_mediaSource_def)
qed

section \<open>abort and remove\<close>

text \<open>
  Claim C3. From every state, \<open>abort()\<close> empties the chunk queue and zeroes its byte
  counter; it returns exactly when there is a SWF object to forward the abort to, and
  once it has returned \<open>updating\<close> is false. It triggers \<open>updateend\<close> once if
  \<open>updating\<close> was true at the call and not at all otherwise. No \<open>appendBuffer\<close>
  is needed first: on a buffer fresh from the constructor \<open>abort()\<close> returns.
\<close>

theorem abort_clears_queue:
  "buffer' (snd (abort s)) = [] \<and> bufferSize' (snd (abort s)) = 0
   \<and> (fst (abort s) = Returned ()) = (the_swf s \<noteq> None)
   \<and> (fst (abort s) = Returned () \<longrightarrow>
        \<not> updating (snd (abort s))
        \<and> fired ''updateend'' s (snd (abort s)) = (if updating s then 1 else 0)
        \<and> effects (snd (abort s)) =
            effects s @ [Vjs_abort]
            @ (if updating s
               then Trigger ''updateend''
                    # (if loadedmetadata_listener s then [TechTrigger ''loadedmetadata''] else [])
               else []))
   \<and> (\<forall>n eh ms. new_FlashSourceBuffer n eh ms = Returned s \<longrightarrow> fst (abort s) = Returned ())"
proof -
  have fresh: "fst (abort s0) = Returned ()"
    if "new_FlashSourceBuffer n eh ms = Returned s0" for n eh ms s0
    using new_FlashSourceBuffer_has_swf[OF that]
    by (auto simp: abort_def andThen_def vjs_abort_def the_swf_def emit_def split: option.splits)
  have main: "buffer' (snd (abort s)) = [] \<and> bufferSize' (snd (abort s)) = 0
   \<and> (fst (abort s) = Returned ()) = (the_swf s \<noteq> None)
   \<and> (fst (abort s) = Returned () \<longrightarrow>
        \<not> updating (snd (abort s))
        \<and> fired ''updateend'' s (snd (abort s)) = (if updating s then 1 else 0)
        \<and> effects (snd (abort s)) =
            effects s @ [Vjs_abort]
            @ (if updating s
               then Trigger ''updateend''
                    # (if loadedmetadata_listener s then [TechTrigger ''loadedmetadata''] else [])
               else []))"
    by (auto simp: abort_def andThen_def vjs_abort_def trigger_def emit_def the_swf_def fired_def
        Let_def split: option.splits)
  show ?thesis using main fresh by blast
qed

theorem abort_clears_queue_witness:
  "updating ex_draining \<and> buffer' ex_draining = [''C1'', ''C2'']
   \<and> abort ex_draining =
       (Returned (),
        ex_draining\<lparr>buffer' := [], updating := False, loadedmetadata_listener := False,
          effects := [Vjs_abort, Trigger ''updateend'', TechTrigger ''loadedmetadata'']\<rparr>)
   \<and> new_FlashSourceBuffer 4096 ''RkxW'' (Some ex_mediaSource) = Returned ex_new
   \<and> fst (abort ex_new) = Returned ()
   \<and> fired ''updateend'' ex_new (snd (abort ex_new)) = 0
   \<and> \<not> updating (snd (abort ex_new))"
proof -
  have sw: "the_swf ex_new \<noteq> None" "\<not> updating ex_new"
    by (simp_all add: the_swf_def ex_defs)
  have d: "abort ex_draining =
       (Returned (),
        ex_draining\<lparr>buffer' := [], updating := False, loadedmetadata_listener := False,
          effects := [Vjs_abort, Trigger ''updateend'', TechTrigger ''loadedmetadata'']\<rparr>)"
    by (simp add: abort_def andThen_def vjs_abort_def trigger_def emit_def the_swf_def ex_defs)
  show ?thesis
    using abort_clears_queue[of ex_new] new_FlashSourceBuffer_example sw d
    by (simp add: ex_draining_def)
qed

text \<open>
  Claim C7. For every \<open>start\<close>, \<open>end\<close> and prior state, \<open>remove(start, end)\<close>
  leaves the chunk queue and its byte counter as they were, triggers \<open>update\<close> once
  and then \<open>updateend\<close> once, and changes nothing but the cues of the two text tracks
  (through \<open>removeCuesFromTrack\<close>) and what the first \<open>updateend\<close> of a buffer brings
  with it (the one-shot listener runs and is gone).
\<close>

theorem remove_keeps_queue:
  "buffer' (snd (remove h start end' s)) = buffer' s
   \<and> bufferSize' (snd (remove h start end' s)) = bufferSize' s
   \<and> fired ''update'' s (snd (remove h start end' s)) = 1
   \<and> fired ''updateend'' s (snd (remove h start end' s)) = 1
   \<and> snd (remove h start end' s) =
       s\<lparr>metadataTrack' := removeCuesFromTrack h start end' (metadataTrack' s),
         inbandTextTrack' := removeCuesFromTrack h start end' (inbandTextTrack' s),
         loadedmetadata_listener := False,
         effects := effects s @ [Trigger ''update'', Trigger ''updateend'']
            @ (if loadedmetadata_listener s \<and> mediaSource' s \<noteq> None
               then [TechTrigger ''loadedmetadata''] else [])\<rparr>"
  by (auto simp: remove_def andThen_def trigger_def emit_def fired_def Let_def
      split: option.splits)

theorem remove_keeps_queue_witness:
  "buffer' (snd (remove ex_helpers (Fin 0) (Fin 10) ex_draining)) = [''C1'', ''C2'']
   \<and> fired ''update'' ex_draining (snd (remove ex_helpers (Fin 0) (Fin 10) ex_draining)) = 1
   \<and> fired ''updateend'' ex_draining (snd (remove ex_helpers (Fin 0) (Fin 10) ex_draining)) = 1
   \<and> effects (snd (remove ex_helpers (Fin 0) (Fin 10) ex_draining)) =
       [Trigger ''update'', Trigger ''updateend'', TechTrigger ''loadedmetadata'']"
proof -
  have f: "buffer' ex_draining = [''C1'', ''C2'']" "effects ex_draining = []"
    "loadedmetadata_listener ex_draining" "mediaSource' ex_draining \<noteq> None"
    by (simp_all add: ex_draining_def)
  have e: "effects (snd (remove ex_helpers (Fin 0) (Fin 10) ex_draining)) =
       [Trigger ''update'', Trigger ''updateend'', TechTrigger ''loadedmetadata'']"
    using remove_keeps_queue[of ex_helpers "Fin 0" "Fin 10" ex_draining] f by simp
  show ?thesis
    using remove_keeps_queue[of ex_helpers "Fin 0" "Fin 10" ex_draining] f e
    by (simp add: fired_def)
qed

section \<open>timestampOffset\<close>

text \<open>
  Claim C6. Writing a number \<open>v\<close> with \<open>v >= 0\<close> to \<open>timestampOffset\<close> (the SWF
  being there to be told) stores \<open>v\<close>, so that reading the property gives \<open>v\<close>,
  calls \<open>vjs_discontinuity\<close> on the SWF, sets the PTS baseline to \<open>NaN\<close> and posts
  \<open>reset\<close> to the transmuxer, and changes nothing else. Writing any other value (not
  a number, a negative number, \<open>NaN\<close>) returns with the state exactly as it was.
\<close>

theorem set_timestampOffset_resets:
  "(\<forall>v. js_ge v (Fin 0) \<and> the_swf s \<noteq> None \<longrightarrow>
        set_timestampOffset (JNum v) s =
          (Returned (),
           s\<lparr>timestampOffset' := v, basePtsOffset' := NaN,
             effects := effects s @ [Vjs_discontinuity, PostMessage Reset]\<rparr>)
        \<and> timestampOffset (snd (set_timestampOffset (JNum v) s)) = v)
   \<and> ((\<forall>v. val = JNum v \<longrightarrow> \<not> js_ge v (Fin 0)) \<longrightarrow> set_timestampOffset val s = (Returned (), s))"
  by (auto simp: set_timestampOffset_def andThen_def vjs_discontinuity_def postMessage_def emit_def
      timestampOffset_def the_swf_def split: option.splits jsval.splits)

theorem set_timestampOffset_resets_witness:
  "js_ge (Fin 5) (Fin 0) \<and> the_swf ex_draining \<noteq> None
   \<and> basePtsOffset' ex_draining = Fin 1000
   \<and> set_timestampOffset (JNum (Fin 5)) ex_draining =
       (Returned (),
        ex_draining\<lparr>timestampOffset' := Fin 5, basePtsOffset' := NaN,
          effects := [Vjs_discontinuity, PostMessage Reset]\<rparr>)
   \<and> timestampOffset (snd (set_timestampOffset (JNum (Fin 5)) ex_draining)) = Fin 5
   \<and> \<not> js_ge (Fin (- 1)) (Fin 0)
   \<and> set_timestampOffset (JNum (Fin (- 1))) ex_draining = (Returned (), ex_draining)
   \<and> set_timestampOffset (JStr ''5'') ex_draining = (Returned (), ex_draining)
   \<and> set_timestampOffset (JNum NaN) ex_draining = (Returned (), ex_draining)"
proof -
  have f: "the_swf ex_draining \<noteq> None" "basePtsOffset' ex_draining = Fin 1000"
    "effects ex_draining = []"
    by (simp_all add: the_swf_def ex_defs)
  show ?thesis
    using set_timestampOffset_resets[of ex_draining "JNum (Fin 5)"]
      set_timestampOffset_resets[of ex_draining "JNum (Fin (- 1))"]
      set_timestampOffset_resets[of ex_draining "JStr ''5''"]
      set_timestampOffset_resets[of ex_draining "JNum NaN"] f
    by simp
qed

section \<open>The PTS baseline and the target PTS\<close>

text \<open>
  Claim C5. With the media source there to ask, \<open>calculateTargetPts_(basePts, length)\<close>
  returns \<open>max(0, currentTime - timestampOffset) * 1000 + baseline\<close> when the tech is
  seeking and \<open>0 * 1000 + baseline\<close>, which is \<open>baseline\<close>, when it is not; here
  \<open>baseline\<close> is \<open>basePtsOffset_\<close> as the call leaves it, that is after the step
  that may set it from \<open>basePts\<close>.
\<close>

theorem calculateTargetPts_value:
  assumes "mediaSource' s = Some m"
  shows "fst (calculateTargetPts' basePts len s) =
           Returned
             (if seeking (tech' m)
              then js_add
                     (js_mul (Math_max (Fin 0) (js_sub (currentTime (tech' m)) (timestampOffset s)))
                        (Fin 1000))
                     (basePtsOffset' (snd (calculateTargetPts' basePts len s)))
              else basePtsOffset' (snd (calculateTargetPts' basePts len s)))
         \<and> (\<forall>b. js_add (js_mul (Fin 0) (Fin 1000)) b = b)"
  using assms
  by (auto simp: calculateTargetPts'_def Let_def timestampOffset_def js_add_Fin0)

theorem calculateTargetPts_value_witness:
  "mediaSource' ex_draining = Some (ex_mediaSource\<lparr>readyState := ''open''\<rparr>)
   \<and> seeking (tech' (ex_mediaSource\<lparr>readyState := ''open''\<rparr>))
   \<and> fst (calculateTargetPts' (Fin 5000) (Fin 10) ex_draining) = Returned (Fin 11000)
   \<and> mediaSource' (ex_new\<lparr>mediaSource' := Some (ex_mediaSource\<lparr>tech' := ex_tech\<lparr>seeking := False\<rparr>\<rparr>)\<rparr>)
       = Some (ex_mediaSource\<lparr>tech' := ex_tech\<lparr>seeking := False\<rparr>\<rparr>)
   \<and> fst (calculateTargetPts' (Fin 5000) (Fin 10)
            (ex_new\<lparr>mediaSource' := Some (ex_mediaSource\<lparr>tech' := ex_tech\<lparr>seeking := False\<rparr>\<rparr>)\<rparr>))
       = Returned (Fin 5000)"
proof -
  let ?m = "ex_mediaSource\<lparr>readyState := ''open''\<rparr>"
  let ?m2 = "ex_mediaSource\<lparr>tech' := ex_tech\<lparr>seeking := False\<rparr>\<rparr>"
  let ?s2 = "ex_new\<lparr>mediaSource' := Some ?m2\<rparr>"
  have m: "mediaSource' ex_draining = Some ?m" by (simp add: ex_draining_def)
  have m2: "mediaSource' ?s2 = Some ?m2" by simp
  have b: "basePtsOffset' (snd (calculateTargetPts' (Fin 5000) (Fin 10) ex_draining)) = Fin 1000"
    "basePtsOffset' (snd (calculateTargetPts' (Fin 5000) (Fin 10) ?s2)) = Fin 5000"
    by (simp_all add: calculateTargetPts'_def Let_def ex_defs)
  have v: "seeking (tech' ?m)" "currentTime (tech' ?m) = Fin 12" "timestampOffset ex_draining = Fin 2"
    "\<not> seeking (tech' ?m2)"
    by (simp_all add: timestampOffset_def ex_defs)
  show ?thesis
    using calculateTargetPts_value[OF m, of "Fin 5000" "Fin 10"]
      calculateTargetPts_value[OF m2, of "Fin 5000" "Fin 10"] m b v
    by (simp add: js_sub_def)
qed

text \<open>
  Claim C9. While the PTS baseline is unset (\<open>basePtsOffset_\<close> is \<open>NaN\<close>: no segment
  of non-zero length since the constructor or the last accepted \<open>timestampOffset\<close>
  write), \<open>calculateTargetPts_\<close> called with length \<open>0\<close> returns \<open>NaN\<close>, and
  \<open>receiveBuffer_\<close> of a segment of length \<open>0\<close> posts \<open>convertTagsToData\<close> with
  \<open>targetPts\<close> \<open>NaN\<close> to the transmuxer.
\<close>

theorem zero_length_segment_gives_NaN:
  assumes "isNaN (basePtsOffset' s)" and "mediaSource' s = Some m"
  shows "fst (calculateTargetPts' basePts (Fin 0) s) = Returned NaN
         \<and> (seg_length sg = Fin 0 \<longrightarrow>
              fst (receiveBuffer' h sg s) = Returned ()
              \<and> effects (snd (receiveBuffer' h sg s)) =
                  effects s @ [PostMessage (ConvertTagsToData NaN)])"
proof -
  have b: "basePtsOffset' s = NaN" using assms(1) by (cases "basePtsOffset' s") auto
  show ?thesis
    using assms(2) b
    by (auto simp: calculateTargetPts'_def receiveBuffer'_def Let_def js_add_NaN_right
        postMessage_def emit_def split: prod.splits)
qed

theorem zero_length_segment_gives_NaN_witness:
  "isNaN (basePtsOffset' ex_new) \<and> mediaSource' ex_new = Some ex_mediaSource
   \<and> seg_length ex_segment = Fin 0
   \<and> fst (calculateTargetPts' (Fin 1000) (Fin 0) ex_new) = Returned NaN
   \<and> fst (receiveBuffer' ex_helpers ex_segment ex_new) = Returned ()
   \<and> effects (snd (receiveBuffer' ex_helpers ex_segment ex_new)) =
       [Vjs_appendChunkReady ''encodedHeaderSuperSecret'', PostMessage Init,
        PostMessage (ConvertTagsToData NaN)]"
proof -
  have n: "isNaN (basePtsOffset' ex_new)" and m: "mediaSource' ex_new = Some ex_mediaSource"
    and l: "seg_length ex_segment = Fin 0"
    and e: "effects ex_new = [Vjs_appendChunkReady ''encodedHeaderSuperSecret'', PostMessage Init]"
    by (simp_all add: ex_new_def ex_segment_def)
  show ?thesis
    using zero_length_segment_gives_NaN[OF n m, of "Fin 1000" ex_segment ex_helpers] n m l e
    by simp
qed

section \<open>buffered\<close>

text \<open>Rounding to a double: how to compute it, and how far it moves a number.\<close>

lemma ulp_pos: "0 < ulp x"
  by (simp add: ulp_def)

lemma floor_log2:
  assumes "2 ^ n \<le> \<bar>x\<bar>" and "\<bar>x\<bar> < 2 ^ Suc n"
  shows "\<lfloor>log 2 \<bar>x\<bar>\<rfloor> = int n"
proof -
  have p: "0 < \<bar>x\<bar>" using assms(1) by (smt (verit) zero_less_power)
  have "(2::real) powr of_int (int n) \<le> \<bar>x\<bar> \<and> \<bar>x\<bar> < 2 powr (of_int (int n) + 1)"
    using assms by (simp add: powr_realpow powr_add)
  then show ?thesis using floor_log_eq_powr_iff[OF p, of 2 "int n"] by simp
qed

lemma ulp_eq:
  assumes "2 ^ n \<le> \<bar>x\<bar>" and "\<bar>x\<bar> < 2 ^ Suc n"
  shows "ulp x = 2 ^ n / 2 ^ 52"
proof -
  have "ulp x = 2 powr (real n - 52)"
    using floor_log2[OF assms] by (simp add: ulp_def)
  also have "\<dots> = 2 powr real n / 2 powr 52" by (simp add: powr_diff)
  also have "\<dots> = 2 ^ n / 2 ^ 52" by (simp add: powr_realpow)
  finally show ?thesis .
qed

lemma roundHalfEven_close: "\<bar>of_int (roundHalfEven m) - m\<bar> \<le> 1 / 2"
proof -
  have lo: "of_int \<lfloor>m\<rfloor> \<le> m" and hi: "m < of_int \<lfloor>m\<rfloor> + 1" by linarith+
  show ?thesis
    unfolding roundHalfEven_def Let_def using lo hi by (auto simp: abs_le_iff)
qed

lemma binary64_normal:
  assumes "2 ^ n \<le> \<bar>x\<bar>" and "\<bar>x\<bar> < 2 ^ Suc n"
    and "roundHalfEven (x * 2 ^ 52 / 2 ^ n) = k"
    and "\<bar>of_int k * 2 ^ n / 2 ^ 52 :: real\<bar> < 2 ^ 1024"
  shows "binary64 x = Fin (of_int k * 2 ^ n / 2 ^ 52)"
proof -
  have x: "x \<noteq> 0" using assms(1) by (smt (verit) zero_less_power abs_zero)
  have u: "ulp x = 2 ^ n / 2 ^ 52" by (rule ulp_eq[OF assms(1) assms(2)])
  have d: "x / (2 ^ n / 2 ^ 52) = x * 2 ^ 52 / 2 ^ n" by simp
  show ?thesis
    unfolding binary64_def Let_def u d assms(3) using x assms(4) by simp
qed

lemma binary64_overflow:
  assumes "2 ^ n \<le> \<bar>x\<bar>" and "\<bar>x\<bar> < 2 ^ Suc n"
    and "roundHalfEven (x * 2 ^ 52 / 2 ^ n) = k"
    and "2 ^ 1024 \<le> \<bar>of_int k * 2 ^ n / 2 ^ 52 :: real\<bar>"
  shows "binary64 x = signed_inf (0 < x)"
proof -
  have x: "x \<noteq> 0" using assms(1) by (smt (verit) zero_less_power abs_zero)
  have u: "ulp x = 2 ^ n / 2 ^ 52" by (rule ulp_eq[OF assms(1) assms(2)])
  have d: "x / (2 ^ n / 2 ^ 52) = x * 2 ^ 52 / 2 ^ n" by simp
  show ?thesis
    unfolding binary64_def Let_def u d assms(3) using x assms(4) by simp
qed

lemma floor_log2_small:
  assumes "1 / 2 ^ n \<le> \<bar>x\<bar>" and "\<bar>x\<bar> < 2 / 2 ^ n"
  shows "\<lfloor>log 2 \<bar>x\<bar>\<rfloor> = - int n"
proof -
  have p: "0 < \<bar>x\<bar>" using assms(1) by (smt (verit) divide_pos_pos zero_less_power)
  have e: "(2::real) powr of_int (- int n) = 1 / 2 ^ n"
    by (simp add: powr_minus powr_realpow divide_inverse)
  have "(2::real) powr (of_int (- int n) + 1) = 2 powr of_int (- int n) * 2 powr 1"
    by (rule powr_add)
  then have e1: "(2::real) powr (of_int (- int n) + 1) = 2 / 2 ^ n"
    unfolding e by simp
  have "(2::real) powr of_int (- int n) \<le> \<bar>x\<bar> \<and> \<bar>x\<bar> < 2 powr (of_int (- int n) + 1)"
    unfolding e e1 using assms by simp
  then show ?thesis using floor_log_eq_powr_iff[OF p, of 2 "- int n"] by simp
qed

lemma ulp_eq_small:
  assumes "1 / 2 ^ n \<le> \<bar>x\<bar>" and "\<bar>x\<bar> < 2 / 2 ^ n" and "n \<le> 1022"
  shows "ulp x = 1 / (2 ^ n * 2 ^ 52)"
proof -
  have m: "max \<lfloor>log 2 \<bar>x\<bar>\<rfloor> (- 1022) = - int n"
    using floor_log2_small[OF assms(1) assms(2)] assms(3) by simp
  have "ulp x = 2 powr (- real (n + 52))"
    unfolding ulp_def m by simp
  also have "\<dots> = 1 / 2 powr real (n + 52)" by (rule powr_minus_divide)
  also have "\<dots> = 1 / 2 ^ (n + 52)" using powr_realpow[of "2::real" "n + 52"] by simp
  finally show ?thesis by (simp add: power_add)
qed

lemma binary64_small:
  assumes "1 / 2 ^ n \<le> \<bar>x\<bar>" and "\<bar>x\<bar> < 2 / 2 ^ n" and "n \<le> 1022"
    and "roundHalfEven (x * (2 ^ n * 2 ^ 52)) = k"
    and "\<bar>of_int k / (2 ^ n * 2 ^ 52) :: real\<bar> < 2 ^ 1024"
  shows "binary64 x = Fin (of_int k / (2 ^ n * 2 ^ 52))"
proof -
  have x: "x \<noteq> 0" using assms(1) by (smt (verit) divide_pos_pos zero_less_power abs_zero)
  have u: "ulp x = 1 / (2 ^ n * 2 ^ 52)" by (rule ulp_eq_small[OF assms(1) assms(2) assms(3)])
  have d: "x / (1 / (2 ^ n * 2 ^ 52)) = x * (2 ^ n * 2 ^ 52)" by simp
  show ?thesis
    unfolding binary64_def Let_def u d assms(4) using x assms(5) by simp
qed

lemma binary64_1000: "binary64 1000 = Fin 1000"
  using binary64_normal[of 9 1000 "1000 * 2 ^ 43"] by (simp add: roundHalfEven_def)

lemma binary64_close:
  assumes "binary64 x = Fin y"
  shows "\<bar>y - x\<bar> \<le> ulp x / 2"
proof (cases "x = 0")
  case True
  then show ?thesis using assms ulp_pos[of 0] by (simp add: binary64_def)
next
  case False
  then have y: "y = of_int (roundHalfEven (x / ulp x)) * ulp x"
    using assms by (simp add: binary64_def Let_def signed_inf_def split: if_splits)
  have "\<bar>of_int (roundHalfEven (x / ulp x)) - x / ulp x\<bar> * ulp x \<le> 1 / 2 * ulp x"
    using roundHalfEven_close[of "x / ulp x"] ulp_pos[of x] by (intro mult_right_mono) simp_all
  moreover have "\<bar>of_int (roundHalfEven (x / ulp x)) - x / ulp x\<bar> * ulp x = \<bar>y - x\<bar>"
  proof -
    have "(of_int (roundHalfEven (x / ulp x)) - x / ulp x) * ulp x = y - x"
      using ulp_pos[of x] by (simp add: y algebra_simps)
    then have "\<bar>(of_int (roundHalfEven (x / ulp x)) - x / ulp x) * ulp x\<bar> = \<bar>y - x\<bar>" by simp
    then show ?thesis using ulp_pos[of x] by (simp add: abs_mult)
  qed
  ultimately show ?thesis by simp
qed

lemma ulp_le:
  assumes "x \<noteq> 0"
  shows "ulp x \<le> max (\<bar>x\<bar> * 2 powr (- 52)) (2 powr (- 1074))"
proof (cases "- 1022 \<le> \<lfloor>log 2 \<bar>x\<bar>\<rfloor>")
  case True
  have p: "0 < \<bar>x\<bar>" using assms by simp
  have "2 powr of_int \<lfloor>log 2 \<bar>x\<bar>\<rfloor> \<le> 2 powr log 2 \<bar>x\<bar>"
    by (intro powr_mono) simp_all
  then have le: "2 powr of_int \<lfloor>log 2 \<bar>x\<bar>\<rfloor> \<le> \<bar>x\<bar>" using p by simp
  have m: "max \<lfloor>log 2 \<bar>x\<bar>\<rfloor> (- 1022) = \<lfloor>log 2 \<bar>x\<bar>\<rfloor>" using True by simp
  have "ulp x = 2 powr (of_int \<lfloor>log 2 \<bar>x\<bar>\<rfloor> + (- 52))"
    unfolding ulp_def m by simp
  also have "\<dots> = 2 powr of_int \<lfloor>log 2 \<bar>x\<bar>\<rfloor> * 2 powr (- 52)"
    by (rule powr_add)
  also have "\<dots> \<le> \<bar>x\<bar> * 2 powr (- 52)"
    using le by (intro mult_right_mono) simp_all
  finally show ?thesis by simp
next
  case False
  then have m: "max \<lfloor>log 2 \<bar>x\<bar>\<rfloor> (- 1022) = - 1022" by simp
  have "ulp x = 2 powr (- 1074)" unfolding ulp_def m by simp
  then show ?thesis by simp
qed

lemma toDecimalPlaces_3:
  "toDecimalPlaces (Fin x) (JNum (Fin 3)) =
     (case binary64 (x * 1000) of
        Fin y \<Rightarrow> binary64 (of_int \<lfloor>y + 1 / 2\<rfloor> / 1000)
      | a \<Rightarrow> a)"
  by (cases "binary64 (x * 1000)")
     (simp_all add: toDecimalPlaces_def binary64_1000 signed_inf_def)

lemma round_close:
  assumes "binary64 (x * 1000) = Fin y"
  shows "\<bar>of_int \<lfloor>y + 1 / 2\<rfloor> / 1000 - x\<bar> \<le> 1 / 2000 + ulp (x * 1000) / 2000"
proof -
  have lo: "of_int \<lfloor>y + 1 / 2\<rfloor> \<le> y + 1 / 2"
    and hi: "y + 1 / 2 < of_int \<lfloor>y + 1 / 2\<rfloor> + 1"
    by linarith+
  have c: "\<bar>y - x * 1000\<bar> \<le> ulp (x * 1000) / 2" by (rule binary64_close[OF assms])
  have c1: "y - x * 1000 \<le> ulp (x * 1000) / 2" and c2: "x * 1000 - y \<le> ulp (x * 1000) / 2"
    using c by linarith+
  have "of_int \<lfloor>y + 1 / 2\<rfloor> / 1000 - x \<le> 1 / 2000 + ulp (x * 1000) / 2000"
    using lo c1 by linarith
  moreover have "x - of_int \<lfloor>y + 1 / 2\<rfloor> / 1000 \<le> 1 / 2000 + ulp (x * 1000) / 2000"
    using hi c2 by linarith
  ultimately show ?thesis by (intro abs_leI) linarith+
qed

text \<open>
  Claim C8, with rounding as the code computes it. Reading \<open>buffered\<close> when the media
  source, its SWF object or the \<open>vjs_getProperty\<close> method of the SWF object is missing
  gives the empty range set and no error. When all three are there and the SWF reports a
  non-empty list of ranges, the start and the end of the first range go through
  \<open>toDecimalPlaces(_, 3)\<close> and the other ranges are returned as they are. On a finite
  number \<open>x\<close>, \<open>toDecimalPlaces(x, 3)\<close> is computed in doubles: the product
  \<open>x * 1000\<close> rounded to a double \<open>y\<close>, the integer \<open>k\<close> nearest to \<open>y\<close> (a
  tie goes up), and the double nearest to \<open>k / 1000\<close>; a product that overflows gives
  an infinity. \<open>k / 1000\<close> is a number of three decimal places within \<open>1/2000\<close> of
  \<open>x\<close> up to the rounding of the product, which is half an \<open>ulp\<close> of it, and an
  \<open>ulp\<close> is at most \<open>2 ^ -52\<close> of the number it belongs to (or \<open>2 ^ -1074\<close>).
\<close>

theorem buffered_unavailable_or_rounded:
  "((mediaSource' s = None \<or> the_swf s = None
       \<or> (\<exists>sw. the_swf s = Some sw \<and> \<not> has_vjs_getProperty sw))
      \<longrightarrow> buffered s = TimeRanges [])
   \<and> (\<forall>sw b0 b1 rest.
        the_swf s = Some sw \<and> has_vjs_getProperty sw \<and> vjs_buffered sw = Some ((b0, b1) # rest) \<longrightarrow>
        buffered s =
          TimeRanges ((toDecimalPlaces b0 (JNum (Fin 3)), toDecimalPlaces b1 (JNum (Fin 3))) # rest))
   \<and> (\<forall>x. toDecimalPlaces (Fin x) (JNum (Fin 3)) =
            (case binary64 (x * 1000) of
               Fin y \<Rightarrow> binary64 (of_int \<lfloor>y + 1 / 2\<rfloor> / 1000)
             | a \<Rightarrow> a))
   \<and> (\<forall>x y. binary64 (x * 1000) = Fin y \<longrightarrow>
          \<bar>of_int \<lfloor>y + 1 / 2\<rfloor> / 1000 - x\<bar> \<le> 1 / 2000 + ulp (x * 1000) / 2000)
   \<and> (\<forall>z r. binary64 z = Fin r \<longrightarrow> \<bar>r - z\<bar> \<le> ulp z / 2)
   \<and> (\<forall>z. z \<noteq> 0 \<longrightarrow> ulp z \<le> max (\<bar>z\<bar> * 2 powr (- 52)) (2 powr (- 1074)))"
proof -
  have 1: "(mediaSource' s = None \<or> the_swf s = None
       \<or> (\<exists>sw. the_swf s = Some sw \<and> \<not> has_vjs_getProperty sw))
      \<longrightarrow> buffered s = TimeRanges []"
    by (auto simp: buffered_def the_swf_def createTimeRange_def split: option.splits)
  have 2: "\<forall>sw b0 b1 rest.
        the_swf s = Some sw \<and> has_vjs_getProperty sw \<and> vjs_buffered sw = Some ((b0, b1) # rest) \<longrightarrow>
        buffered s =
          TimeRanges ((toDecimalPlaces b0 (JNum (Fin 3)), toDecimalPlaces b1 (JNum (Fin 3))) # rest)"
    by (auto simp: buffered_def the_swf_def createTimeRanges_def split: option.splits)
  show ?thesis
    using 1 2 toDecimalPlaces_3 round_close binary64_close ulp_le by blast
qed

theorem buffered_unavailable_or_rounded_witness:
  "mediaSource' (ex_new\<lparr>mediaSource' := None\<rparr>) = None
   \<and> buffered (ex_new\<lparr>mediaSource' := None\<rparr>) = TimeRanges []
   \<and> the_swf ex_new = Some ex_swf \<and> has_vjs_getProperty ex_swf
   \<and> vjs_buffered ex_swf =
       Some [(Fin (5559693739988877 / 4503599627370496), Fin (5629781009189831 / 562949953421312)),
             (Fin 20, Fin 30)]
   \<and> binary64 (5559693739988877 / 4503599627370496 * 1000) = Fin (2469 / 2)
   \<and> toDecimalPlaces (Fin (5559693739988877 / 4503599627370496)) (JNum (Fin 3)) =
       Fin (5561945539802563 / 4503599627370496)
   \<and> binary64 (1235 / 1000) = Fin (5561945539802563 / 4503599627370496)
   \<and> toDecimalPlaces (Fin (5188146770730811 / 2 ^ 60)) (JNum (Fin 3)) =
       Fin (5764607523034235 / 2 ^ 60)
   \<and> toDecimalPlaces (Fin (6413338752028713 * 2 ^ 964)) (JNum (Fin 3)) = PosInf
   \<and> buffered ex_new =
       TimeRanges [(Fin (5561945539802563 / 4503599627370496),
                    Fin (5630062484166541 / 562949953421312)),
                   (Fin 20, Fin 30)]"
proof -
  have n: "mediaSource' (ex_new\<lparr>mediaSource' := None\<rparr>) = None" by simp
  have a: "the_swf ex_new = Some ex_swf" "has_vjs_getProperty ex_swf"
    "vjs_buffered ex_swf =
       Some [(Fin (5559693739988877 / 4503599627370496), Fin (5629781009189831 / 562949953421312)),
             (Fin 20, Fin 30)]"
    by (simp_all add: the_swf_def ex_defs)
  have p0: "binary64 (5559693739988877 / 4503599627370496 * 1000) = Fin (2469 / 2)"
    using binary64_normal[of 10 "5559693739988877 / 4503599627370496 * 1000" "2469 * 2 ^ 41"]
    by (simp add: roundHalfEven_def)
  have q0: "binary64 (1235 / 1000) = Fin (5561945539802563 / 4503599627370496)"
    using binary64_normal[of 0 "1235 / 1000" 5561945539802563]
    by (simp add: roundHalfEven_def)
  have p1: "binary64 (5629781009189831 / 562949953421312 * 1000) = Fin (20001 / 2)"
    using binary64_normal[of 13 "5629781009189831 / 562949953421312 * 1000" "20001 * 2 ^ 38"]
    by (simp add: roundHalfEven_def)
  have q1: "binary64 (10001 / 1000) = Fin (5630062484166541 / 562949953421312)"
    using binary64_normal[of 3 "10001 / 1000" 5630062484166541]
    by (simp add: roundHalfEven_def)
  note t = buffered_unavailable_or_rounded[of ex_new]
  have r0: "toDecimalPlaces (Fin (5559693739988877 / 4503599627370496)) (JNum (Fin 3)) =
       Fin (5561945539802563 / 4503599627370496)"
  proof -
    from t have "toDecimalPlaces (Fin (5559693739988877 / 4503599627370496)) (JNum (Fin 3)) =
            (case binary64 (5559693739988877 / 4503599627370496 * 1000) of
               Fin y \<Rightarrow> binary64 (of_int \<lfloor>y + 1 / 2\<rfloor> / 1000)
             | a \<Rightarrow> a)"
      by blast
    then show ?thesis unfolding p0 using q0 by simp
  qed
  have r1: "toDecimalPlaces (Fin (5629781009189831 / 562949953421312)) (JNum (Fin 3)) =
       Fin (5630062484166541 / 562949953421312)"
  proof -
    from t have "toDecimalPlaces (Fin (5629781009189831 / 562949953421312)) (JNum (Fin 3)) =
            (case binary64 (5629781009189831 / 562949953421312 * 1000) of
               Fin y \<Rightarrow> binary64 (of_int \<lfloor>y + 1 / 2\<rfloor> / 1000)
             | a \<Rightarrow> a)"
      by blast
    then show ?thesis unfolding p1 using q1 by simp
  qed
  have p2: "binary64 (5188146770730811 / 2 ^ 60 * 1000) = Fin (9 / 2)"
    using binary64_normal[of 2 "5188146770730811 / 2 ^ 60 * 1000" 5066549580791808]
    by (simp add: roundHalfEven_def)
  have q2: "binary64 (5 / 1000) = Fin (5764607523034235 / 2 ^ 60)"
    using binary64_small[of 8 "5 / 1000" 5764607523034235]
    by (simp add: roundHalfEven_def)
  have p3: "binary64 (6413338752028713 * 2 ^ 964 * 1000) = PosInf"
    using binary64_overflow[of 1026 "6413338752028713 * 2 ^ 964 * 1000" 6263026125028040]
    by (simp add: roundHalfEven_def signed_inf_def)
  have r2: "toDecimalPlaces (Fin (5188146770730811 / 2 ^ 60)) (JNum (Fin 3)) =
       Fin (5764607523034235 / 2 ^ 60)"
  proof -
    from t have "toDecimalPlaces (Fin (5188146770730811 / 2 ^ 60)) (JNum (Fin 3)) =
            (case binary64 (5188146770730811 / 2 ^ 60 * 1000) of
               Fin y \<Rightarrow> binary64 (of_int \<lfloor>y + 1 / 2\<rfloor> / 1000)
             | a \<Rightarrow> a)"
      by blast
    then show ?thesis unfolding p2 using q2 by simp
  qed
  have r3: "toDecimalPlaces (Fin (6413338752028713 * 2 ^ 964)) (JNum (Fin 3)) = PosInf"
  proof -
    from t have "toDecimalPlaces (Fin (6413338752028713 * 2 ^ 964)) (JNum (Fin 3)) =
            (case binary64 (6413338752028713 * 2 ^ 964 * 1000) of
               Fin y \<Rightarrow> binary64 (of_int \<lfloor>y + 1 / 2\<rfloor> / 1000)
             | a \<Rightarrow> a)"
      by blast
    then show ?thesis unfolding p3 by simp
  qed
  from t a have b: "buffered ex_new =
      TimeRanges ((toDecimalPlaces (Fin (5559693739988877 / 4503599627370496)) (JNum (Fin 3)),
                   toDecimalPlaces (Fin (5629781009189831 / 562949953421312)) (JNum (Fin 3)))
                  # [(Fin 20, Fin 30)])"
    by blast
  show ?thesis
    using buffered_unavailable_or_rounded[of "ex_new\<lparr>mediaSource' := None\<rparr>"] n a p0 q0 r0 r1
      r2 r3 b
    by simp
qed

text \<open>
  Claim C8 as it was stated, the bounds of the first range rounded to three decimal places,
  fails on doubles the SWF can report. For the range \<open>[1e306, 1e306]\<close> the product with
  1000 overflows and both bounds come back as \<open>Infinity\<close>. For the double nearest to
  1.2345, which lies below 1.2345, the result is the double nearest to 1.235, although
  1.234 is the nearer number of three decimal places: the product rounds up to 1234.5.
\<close>

theorem buffered_rounding_counterexample:
  "buffered ex_huge = TimeRanges [(PosInf, PosInf)]
   \<and> toDecimalPlaces (Fin (5559693739988877 / 4503599627370496)) (JNum (Fin 3)) =
       Fin (5561945539802563 / 4503599627370496)
   \<and> \<bar>1234 / 1000 - 5559693739988877 / 4503599627370496 :: real\<bar>
       < \<bar>1235 / 1000 - 5559693739988877 / 4503599627370496\<bar>
   \<and> \<bar>1234 / 1000 - 5559693739988877 / 4503599627370496 :: real\<bar>
       < \<bar>5561945539802563 / 4503599627370496 - 5559693739988877 / 4503599627370496\<bar>"
proof -
  have p3: "binary64 (6413338752028713 * 2 ^ 964 * 1000) = PosInf"
    using binary64_overflow[of 1026 "6413338752028713 * 2 ^ 964 * 1000" 6263026125028040]
    by (simp add: roundHalfEven_def signed_inf_def)
  have "toDecimalPlaces (Fin (6413338752028713 * 2 ^ 964)) (JNum (Fin 3)) =
          (case binary64 (6413338752028713 * 2 ^ 964 * 1000) of
             Fin y \<Rightarrow> binary64 (of_int \<lfloor>y + 1 / 2\<rfloor> / 1000)
           | a \<Rightarrow> a)"
    by (rule toDecimalPlaces_3)
  then have r3: "toDecimalPlaces (Fin (6413338752028713 * 2 ^ 964)) (JNum (Fin 3)) = PosInf"
    unfolding p3 by simp
  have "buffered ex_huge =
      TimeRanges [(toDecimalPlaces (Fin (6413338752028713 * 2 ^ 964)) (JNum (Fin 3)),
                   toDecimalPlaces (Fin (6413338752028713 * 2 ^ 964)) (JNum (Fin 3)))]"
    by (simp add: ex_huge_def buffered_def createTimeRanges_def del: power_numeral)
  then have b: "buffered ex_huge = TimeRanges [(PosInf, PosInf)]"
    unfolding r3 .
  have p0: "binary64 (5559693739988877 / 4503599627370496 * 1000) = Fin (2469 / 2)"
    using binary64_normal[of 10 "5559693739988877 / 4503599627370496 * 1000" "2469 * 2 ^ 41"]
    by (simp add: roundHalfEven_def)
  have q0: "binary64 (1235 / 1000) = Fin (5561945539802563 / 4503599627370496)"
    using binary64_normal[of 0 "1235 / 1000" 5561945539802563]
    by (simp add: roundHalfEven_def)
  have "toDecimalPlaces (Fin (5559693739988877 / 4503599627370496)) (JNum (Fin 3)) =
          (case binary64 (5559693739988877 / 4503599627370496 * 1000) of
             Fin y \<Rightarrow> binary64 (of_int \<lfloor>y + 1 / 2\<rfloor> / 1000)
           | a \<Rightarrow> a)"
    by (rule toDecimalPlaces_3)
  then have r0: "toDecimalPlaces (Fin (5559693739988877 / 4503599627370496)) (JNum (Fin 3)) =
       Fin (5561945539802563 / 4503599627370496)"
    unfolding p0 using q0 by simp
  show ?thesis using b r0 by simp
qed

section \<open>The PTS baseline over a history of calls\<close>

text \<open>Which calls leave \<open>basePtsOffset_\<close> as it is.\<close>

lemma bpo_trigger: "basePtsOffset' (snd (trigger ty s)) = basePtsOffset' s"
  by (simp add: trigger_def emit_def Let_def split: option.splits)

lemma bpo_appendBuffer: "basePtsOffset' (snd (appendBuffer bytes s)) = basePtsOffset' s"
  by (auto simp: appendBuffer_def trigger_def andThen_def emit_def postMessage_def Let_def
      split: option.splits)

lemma bpo_abort: "basePtsOffset' (snd (abort s)) = basePtsOffset' s"
  by (auto simp: abort_def andThen_def vjs_abort_def trigger_def emit_def Let_def
      split: option.splits)

lemma bpo_remove: "basePtsOffset' (snd (remove h start end' s)) = basePtsOffset' s"
  by (auto simp: remove_def andThen_def trigger_def emit_def Let_def split: option.splits)

lemma bpo_set_timestampOffset:
  "\<not> accepted_offset_write (SetTimestampOffset val) \<Longrightarrow>
   basePtsOffset' (snd (set_timestampOffset val s)) = basePtsOffset' s"
  by (cases val) (auto simp: set_timestampOffset_def)

lemma bpo_calculateTargetPts:
  "basePtsOffset' (snd (calculateTargetPts' basePts len s)) =
     (if isNaN (basePtsOffset' s) \<and> truthy len then basePts else basePtsOffset' s)"
  by (auto simp: calculateTargetPts'_def Let_def split: option.splits)

lemma bpo_receiveBuffer:
  "\<not> isNaN (basePtsOffset' s) \<Longrightarrow> basePtsOffset' (snd (receiveBuffer' h sg s)) = basePtsOffset' s"
proof -
  assume a: "\<not> isNaN (basePtsOffset' s)"
  obtain m2 i2 where t: "addTextTrackData h (timestampOffset s) (seg_captions sg) (seg_metadata sg)
     (createTextTracksIfNecessary h sg (metadataTrack' s, inbandTextTrack' s)) = (m2, i2)"
    by (cases "addTextTrackData h (timestampOffset s) (seg_captions sg) (seg_metadata sg)
     (createTextTracksIfNecessary h sg (metadataTrack' s, inbandTextTrack' s))") auto
  let ?s1 = "s\<lparr>metadataTrack' := m2, inbandTextTrack' := i2\<rparr>"
  have "basePtsOffset' (snd (calculateTargetPts' (seg_basePts sg) (seg_length sg) ?s1)) = basePtsOffset' s"
    using a by (simp add: bpo_calculateTargetPts)
  then show ?thesis
    using t
    by (cases "calculateTargetPts' (seg_basePts sg) (seg_length sg) ?s1")
       (auto simp: receiveBuffer'_def Let_def postMessage_def emit_def split: prod.splits outcome.splits)
qed

lemma bpo_onmessage:
  "\<not> isNaN (basePtsOffset' s) \<Longrightarrow> basePtsOffset' (snd (onmessage h ev s)) = basePtsOffset' s"
  by (cases ev) (auto simp: onmessage_def bpo_receiveBuffer scheduleTick_def emit_def)

lemma bpo_processBuffer: "basePtsOffset' (snd (processBuffer' s)) = basePtsOffset' s"
  by (auto simp: processBuffer'_def vjs_appendChunkReady_def bpo_trigger emit_def
      split: list.splits option.splits)

lemma bpo_throwData: "basePtsOffset' (snd (throwDataSuperSecret_call c s)) = basePtsOffset' s"
  by (auto simp: throwDataSuperSecret_call_def andThen_def trigger_def scheduleTick_def emit_def Let_def
      split: option.splits)

lemma bpo_swf_invoke: "basePtsOffset' (swf_invoke name s) = basePtsOffset' s"
proof -
  have 1: "basePtsOffset' (snd (encodedHeaderSuperSecret_call c s)) = basePtsOffset' s" for c
    by (simp add: encodedHeaderSuperSecret_call_def)
  have 2: "basePtsOffset' (case r of (Threw (Payload c), s1) \<Rightarrow> emit (SwfReceived c) s1 | (_, s1) \<Rightarrow> s1)
           = basePtsOffset' (snd r)" for r :: "unit outcome \<times> FlashSourceBuffer"
    by (auto simp: emit_def split: prod.splits outcome.splits thrown.splits)
  show ?thesis
    unfolding swf_invoke_def Let_def 2
    using 1 bpo_throwData by (auto split: option.splits)
qed

lemma bpo_fire: "fire st s = Some s1 \<Longrightarrow> basePtsOffset' s1 = basePtsOffset' s"
  using bpo_processBuffer[of "s\<lparr>timers := timers s - 1\<rparr>"]
  by (cases st) (auto simp: fire_def bpo_swf_invoke split: if_splits list.splits)

lemma bpo_perform:
  "\<not> isNaN (basePtsOffset' s) \<Longrightarrow> \<not> accepted_offset_write c \<Longrightarrow>
   basePtsOffset' (perform h c s) = basePtsOffset' s"
  by (cases c)
     (auto simp: perform_def bpo_appendBuffer bpo_abort bpo_remove bpo_set_timestampOffset
        bpo_onmessage seeked_def bpo_calculateTargetPts bpo_processBuffer Let_def
      dest: bpo_fire split: option.splits)

lemma bpo_performAll:
  "\<not> isNaN (basePtsOffset' s) \<Longrightarrow> \<forall>c\<in>set cs. \<not> accepted_offset_write c \<Longrightarrow>
   basePtsOffset' (performAll h cs s) = basePtsOffset' s"
  by (induction cs arbitrary: s) (auto simp: bpo_perform)

text \<open>
  Claim C4. \<open>calculateTargetPts_\<close> assigns \<open>basePtsOffset_\<close> only when it is
  unset (\<open>NaN\<close>) and the segment length is not zero, and then it assigns
  \<open>basePts\<close>; a segment of length zero never changes it. Once it is set (not
  \<open>NaN\<close>), no history of calls of any kind (appends, aborts, removes, worker
  messages, timers, SWF callbacks, further \<open>calculateTargetPts_\<close> calls) changes it,
  as long as the history holds no accepted write to \<open>timestampOffset\<close>.
\<close>

theorem basePtsOffset_set_once:
  "basePtsOffset' (snd (calculateTargetPts' basePts len s)) =
     (if isNaN (basePtsOffset' s) \<and> truthy len then basePts else basePtsOffset' s)
   \<and> (basePtsOffset' (snd (calculateTargetPts' basePts len s)) \<noteq> basePtsOffset' s
        \<longrightarrow> isNaN (basePtsOffset' s) \<and> len \<noteq> Fin 0)
   \<and> basePtsOffset' (snd (calculateTargetPts' basePts (Fin 0) s)) = basePtsOffset' s
   \<and> (\<not> isNaN (basePtsOffset' s) \<and> (\<forall>c\<in>set cs. \<not> accepted_offset_write c)
        \<longrightarrow> basePtsOffset' (performAll h cs s) = basePtsOffset' s)"
  using bpo_performAll[of s cs h]
  by (auto simp: bpo_calculateTargetPts)

theorem basePtsOffset_set_once_witness:
  "isNaN (basePtsOffset' ex_new)
   \<and> basePtsOffset' (snd (calculateTargetPts' (Fin 1000) (Fin 0) ex_new)) = NaN
   \<and> basePtsOffset' (snd (calculateTargetPts' (Fin 1000) (Fin 10) ex_new)) = Fin 1000
   \<and> \<not> isNaN (basePtsOffset' ex_draining)
   \<and> \<not> accepted_offset_write (CalculateTargetPts (Fin 2000) (Fin 10))
   \<and> \<not> accepted_offset_write (SetTimestampOffset (JNum (Fin (- 1))))
   \<and> basePtsOffset'
        (performAll ex_helpers
           [CalculateTargetPts (Fin 2000) (Fin 10),
            OnMessage (Metadata (ex_segment\<lparr>seg_basePts := Fin 3000, seg_length := Fin 7\<rparr>)),
            SetTimestampOffset (JNum (Fin (- 1))), Env Tick, Env SinkReady, Abort]
           ex_draining) = Fin 1000"
proof -
  have n: "isNaN (basePtsOffset' ex_new)" "basePtsOffset' ex_new = NaN"
    "basePtsOffset' ex_draining = Fin 1000"
    by (simp_all add: ex_defs)
  show ?thesis
    using basePtsOffset_set_once[of "Fin 1000" "Fin 0" ex_new "[]" ex_helpers]
      basePtsOffset_set_once[of "Fin 1000" "Fin 10" ex_new "[]" ex_helpers]
      basePtsOffset_set_once[of "Fin 1000" "Fin 10" ex_draining
        "[CalculateTargetPts (Fin 2000) (Fin 10),
          OnMessage (Metadata (ex_segment\<lparr>seg_basePts := Fin 3000, seg_length := Fin 7\<rparr>)),
          SetTimestampOffset (JNum (Fin (- 1))), Env Tick, Env SinkReady, Abort]" ex_helpers]
      n
    by simp
qed

section \<open>The delivery loop\<close>



































end
